theory Spec2Isabelle
  imports Main "HOL-Library.Word" "HOL-Library.Sublist"
begin

section \<open>JavaScript strings\<close>

text \<open>
  A JavaScript string is a sequence of UTF-16 code units; \<open>length\<close>, \<open>startsWith\<close>,
  \<open>trim\<close> and \<open>+\<close> all work on code units. A chunk read from the response body is a
  \<open>Uint8Array\<close>, a sequence of bytes.
\<close>

type_synonym code_unit = "16 word"
type_synonym js_string = "code_unit list"
type_synonym bytes = "8 word list"

text \<open>The code units (or bytes) of an ASCII literal of the source.\<close>

definition ascii :: "string \<Rightarrow> 'a::len word list" where
  "ascii s = map (\<lambda>c. of_nat (of_char c)) s"

definition lit :: "string \<Rightarrow> js_string" where
  "lit = ascii"

text \<open>
  \<open>String.prototype.trim\<close> removes the WhiteSpace and LineTerminator code points of
  ECMAScript from both ends: TAB, LF, VT, FF, CR, SP, NBSP, U+1680, U+2000..U+200A,
  U+2028, U+2029, U+202F, U+205F, U+3000 and U+FEFF.
\<close>

definition isWhiteSpace :: "code_unit \<Rightarrow> bool" where
  "isWhiteSpace c \<longleftrightarrow>
     (0x09 \<le> c \<and> c \<le> 0x0D) \<or> c = 0x20 \<or> c = 0xA0 \<or> c = 0x1680 \<or>
     (0x2000 \<le> c \<and> c \<le> 0x200A) \<or> c = 0x2028 \<or> c = 0x2029 \<or> c = 0x202F \<or>
     c = 0x205F \<or> c = 0x3000 \<or> c = 0xFEFF"

definition trim :: "js_string \<Rightarrow> js_string" where
  "trim s = rev (dropWhile isWhiteSpace (rev (dropWhile isWhiteSpace s)))"

definition startsWith :: "js_string \<Rightarrow> js_string \<Rightarrow> bool" where
  "startsWith s p \<longleftrightarrow> take (length p) s = p"

text \<open>The decimal digits of a number, as a template literal prints \<open>response.status\<close>.\<close>

fun toString :: "nat \<Rightarrow> js_string" where
  "toString n =
     (if n < 10 then [0x30 + of_nat n]
      else toString (n div 10) @ [0x30 + of_nat (n mod 10)])"

declare toString.simps [simp del]

text \<open>
  \<open>a || b\<close> where \<open>a\<close> is a property that is absent or holds a string: \<open>undefined\<close> and
  the empty string are falsy.
\<close>

definition js_or :: "js_string option \<Rightarrow> js_string \<Rightarrow> js_string" where
  "js_or a b = (case a of None \<Rightarrow> b | Some s \<Rightarrow> if s = [] then b else s)"

section \<open>\<open>TextDecoder\<close>\<close>

text \<open>
  \<open>new TextDecoder().decode(value)\<close> of \<open>page.tsx\<close> line 172: a fresh decoder for every
  chunk, no \<open>stream\<close> option, so the decoder is flushed at the end of the chunk. This is
  the UTF-8 decoder of the WHATWG Encoding Standard in replacement mode: its state is
  the code point under construction, the bytes seen and needed, and the bounds of the
  next byte; a byte out of bounds gives U+FFFD and is read again from the initial state;
  a sequence cut off by the end of the input gives U+FFFD.
\<close>

unbundle bit_operations_syntax

function utf8_decoder :: "nat \<Rightarrow> nat \<Rightarrow> nat \<Rightarrow> 8 word \<Rightarrow> 8 word \<Rightarrow> bytes \<Rightarrow> nat list" where
  "utf8_decoder code_point bytes_seen bytes_needed lower upper [] =
     (if bytes_needed \<noteq> 0 then [0xFFFD] else [])"
| "utf8_decoder code_point bytes_seen bytes_needed lower upper (b # bs) =
     (if bytes_needed = 0 then
        (if b \<le> 0x7F then unat b # utf8_decoder 0 0 0 0x80 0xBF bs
         else if 0xC2 \<le> b \<and> b \<le> 0xDF then
           utf8_decoder (unat (b AND 0x1F)) 0 1 0x80 0xBF bs
         else if 0xE0 \<le> b \<and> b \<le> 0xEF then
           utf8_decoder (unat (b AND 0xF)) 0 2
             (if b = 0xE0 then 0xA0 else 0x80) (if b = 0xED then 0x9F else 0xBF) bs
         else if 0xF0 \<le> b \<and> b \<le> 0xF4 then
           utf8_decoder (unat (b AND 7)) 0 3
             (if b = 0xF0 then 0x90 else 0x80) (if b = 0xF4 then 0x8F else 0xBF) bs
         else 0xFFFD # utf8_decoder 0 0 0 0x80 0xBF bs)
      else if b < lower \<or> upper < b then
        0xFFFD # utf8_decoder 0 0 0 0x80 0xBF (b # bs)
      else
        (let code_point' = push_bit 6 code_point OR unat (b AND 0x3F) in
         if bytes_seen + 1 \<noteq> bytes_needed then
           utf8_decoder code_point' (bytes_seen + 1) bytes_needed 0x80 0xBF bs
         else code_point' # utf8_decoder 0 0 0 0x80 0xBF bs))"
  by pat_completeness auto
termination
  by (relation "measure (\<lambda>(c, s, n, l, u, bs). 2 * length bs + (if n = 0 then 0 else 1))") auto

text \<open>
  The decoder drops a leading U+FEFF of its output (\<open>ignoreBOM\<close> is false), and the
  resulting code points become UTF-16 code units, a pair of surrogates above U+FFFF.
\<close>

definition strip_bom :: "nat list \<Rightarrow> nat list" where
  "strip_bom cps = (case cps of [] \<Rightarrow> [] | c # cs \<Rightarrow> if c = 0xFEFF then cs else c # cs)"

definition utf16_units :: "nat \<Rightarrow> js_string" where
  "utf16_units c =
     (if c < 0x10000 then [of_nat c]
      else [0xD800 + of_nat ((c - 0x10000) div 0x400), 0xDC00 + of_nat ((c - 0x10000) mod 0x400)])"

definition TextDecoder_decode :: "bytes \<Rightarrow> js_string" where
  "TextDecoder_decode v = concat (map utf16_units (strip_bom (utf8_decoder 0 0 0 0x80 0xBF v)))"

section \<open>Data model of \<open>page.tsx\<close>\<close>

text \<open>
  The model follows the \<open>Home\<close> component with the PDF upload (the first component of
  \<open>frontend/app/page.tsx\<close>). Each handler is a function from the state before the call
  to the state once the handler has run to its end, with the state updates applied
  in the order the handler queues them; the network is the parameter \<open>fetch\<close>.
\<close>

record message =
  role :: js_string
  content :: js_string

datatype chat_mode = Regular | Rag

record pdf_status =
  pdf_loaded :: bool
  chunks_count :: nat

record js_file =
  file_name :: js_string
  file_type :: js_string

text \<open>
  What a \<open>catch\<close> clause receives: an \<open>Error\<close> object with its message, or any other
  value (\<open>error instanceof Error\<close> is false for it).
\<close>

datatype thrown = Error js_string | NonError

text \<open>
  The parsed JSON of a response, as far as the page reads it: the \<open>detail\<close> property
  (absent, or a string) and the two properties of the PDF status.
\<close>

datatype json_value =
  Json (detail: "js_string option") (json_pdf_loaded: bool) (json_chunks_count: nat)

text \<open>
  The reader of a response body: the values that successive \<open>read()\<close> calls resolve
  to, and how the sequence ends: \<open>None\<close> when \<open>read()\<close> reports \<open>done\<close>, \<open>Some e\<close>
  when \<open>read()\<close> rejects with \<open>e\<close>.
\<close>

record reader =
  chunks :: "bytes list"
  failure :: "thrown option"

text \<open>
  A response: \<open>ok\<close> and \<open>status\<close> are the two properties the page reads (it never
  derives one from the other), \<open>json\<close> is what \<open>response.json()\<close> settles to (\<open>Inl\<close> a
  rejection), \<open>body\<close> is \<open>None\<close> when \<open>response.body\<close> is null.
\<close>

record response =
  ok :: bool
  status :: nat
  json :: "thrown + json_value"
  body :: "reader option"

datatype fetch_result = Rejected thrown | Resolved response

datatype request =
    RagChat js_string js_string
  | Chat js_string js_string js_string
  | UploadPdf js_file js_string
  | PdfStatus

text \<open>
  The state of the \<open>Home\<close> component: its \<open>useState\<close> cells, the value of the file
  input behind \<open>fileInputRef\<close> (\<open>None\<close> when \<open>fileInputRef.current\<close> is null), and the
  trace of the \<open>fetch\<close> calls made so far.
\<close>

record state =
  apiKey :: js_string
  messages :: "message list"
  inputMessage :: js_string
  isLoading :: bool
  isValidApiKey :: bool
  pdfFile :: "js_file option"
  pdfStatus :: pdf_status
  isUploading :: bool
  chatMode :: chat_mode
  fileInputRef :: "js_string option"
  requests :: "request list"

text \<open>
  An exception inside a state updater is not thrown into the handler that queued it:
  the render that applies the updater fails.
\<close>

datatype crash = TypeError

section \<open>Credential check\<close>

definition validateApiKey :: "js_string \<Rightarrow> bool" where
  "validateApiKey key \<longleftrightarrow>
     (startsWith key (lit ''sk-'') \<or> startsWith key (lit ''sk-proj-'')) \<and> length key \<ge> 40"

definition handleApiKeyChange :: "js_string \<Rightarrow> state \<Rightarrow> state" where
  "handleApiKeyChange newKey st =
     st\<lparr>apiKey := newKey, isValidApiKey := validateApiKey newKey\<rparr>"

definition clearChat :: "state \<Rightarrow> state" where
  "clearChat st = st\<lparr>messages := []\<rparr>"

section \<open>The streaming loop of \<open>handleSubmit\<close>\<close>

text \<open>
  The updater passed to \<open>setMessages\<close> for each chunk. \<open>newMessages[length - 1]\<close> of an
  empty array is \<open>undefined\<close>, and reading \<open>.role\<close> of it raises a TypeError.
\<close>

definition chunk_update :: "js_string \<Rightarrow> message list \<Rightarrow> crash + message list" where
  "chunk_update assistantMessage prev =
     (let newMessages = prev in
      if newMessages = [] then Inl TypeError
      else
        let lastMessage = newMessages ! (length newMessages - 1) in
        if role lastMessage = lit ''assistant''
        then Inr (newMessages[length newMessages - 1 :=
                    lastMessage\<lparr>content := assistantMessage\<rparr>])
        else Inr (newMessages @ [\<lparr>role = lit ''assistant'', content = assistantMessage\<rparr>]))"

text \<open>
  \<open>while (true)\<close> over \<open>reader.read()\<close>: each value is decoded by a fresh
  \<open>TextDecoder\<close> (the parameter \<open>decode\<close>; the page's is \<open>TextDecoder_decode\<close>), appended
  to \<open>assistantMessage\<close>, and written
  into the transcript. The result is the transcript and, when \<open>read()\<close> rejected, the
  exception on its way to the \<open>catch\<close> clause.
\<close>

fun read_loop ::
  "(bytes \<Rightarrow> js_string) \<Rightarrow> js_string \<Rightarrow> bytes list \<Rightarrow> thrown option \<Rightarrow> message list
     \<Rightarrow> crash + (message list \<times> thrown option)" where
  "read_loop decode assistantMessage [] ending ms = Inr (ms, ending)"
| "read_loop decode assistantMessage (v # vs) ending ms =
     (let text = decode v;
          assistantMessage' = assistantMessage @ text
      in case chunk_update assistantMessage' ms of
           Inl c \<Rightarrow> Inl c
         | Inr ms' \<Rightarrow> read_loop decode assistantMessage' vs ending ms')"

section \<open>\<open>handleSubmit\<close>\<close>

definition chat_request :: "state \<Rightarrow> request" where
  "chat_request st =
     (if chatMode st = Rag then RagChat (inputMessage st) (apiKey st)
      else Chat (lit ''You are a helpful AI assistant.'') (inputMessage st) (apiKey st))"

text \<open>The message of the Error thrown for a response that is not ok.\<close>

definition response_error :: "response \<Rightarrow> js_string" where
  "response_error r =
     (let errorData = (case json r of Inl _ \<Rightarrow> Json None False 0 | Inr j \<Rightarrow> j)
      in js_or (detail errorData) (lit ''Server responded with status: '' @ toString (status r)))"

text \<open>
  The \<open>try\<close> block after the user message is queued: the transcript it leaves and the
  exception that reaches \<open>catch\<close>, if any.
\<close>

definition try_block ::
  "(request \<Rightarrow> fetch_result) \<Rightarrow> (bytes \<Rightarrow> js_string) \<Rightarrow> state \<Rightarrow> message list
     \<Rightarrow> crash + (message list \<times> thrown option)" where
  "try_block fetch decode st ms =
     (case fetch (chat_request st) of
        Rejected e \<Rightarrow> Inr (ms, Some e)
      | Resolved r \<Rightarrow>
          if \<not> ok r then Inr (ms, Some (Error (response_error r)))
          else (case body r of
                  None \<Rightarrow> Inr (ms, Some (Error (lit ''No reader available'')))
                | Some rd \<Rightarrow> read_loop decode [] (chunks rd) (failure rd) ms))"

definition catch_entry :: "thrown \<Rightarrow> message" where
  "catch_entry error =
     \<lparr>role = lit ''assistant'',
      content = lit ''Error: '' @
        (case error of Error m \<Rightarrow> m | NonError \<Rightarrow> lit ''Failed to process your request'')\<rparr>"

definition handleSubmit ::
  "(request \<Rightarrow> fetch_result) \<Rightarrow> (bytes \<Rightarrow> js_string) \<Rightarrow> state \<Rightarrow> crash + state" where
  "handleSubmit fetch decode st =
     (if trim (inputMessage st) = [] \<or> \<not> isValidApiKey st then Inr st
      else
        let newMessage = \<lparr>role = lit ''user'', content = inputMessage st\<rparr>;
            st1 = st\<lparr>messages := messages st @ [newMessage],
                     inputMessage := [],
                     isLoading := True,
                     requests := requests st @ [chat_request st]\<rparr>
        in case try_block fetch decode st (messages st1) of
             Inl c \<Rightarrow> Inl c
           | Inr (ms, caught) \<Rightarrow>
               Inr (st1\<lparr>messages := (case caught of
                                        None \<Rightarrow> ms
                                      | Some error \<Rightarrow> ms @ [catch_entry error]),
                        isLoading := False\<rparr>))"

section \<open>\<open>handleFileUpload\<close>\<close>

definition checkPdfStatus :: "(request \<Rightarrow> fetch_result) \<Rightarrow> state \<Rightarrow> state" where
  "checkPdfStatus fetch st =
     (let st1 = st\<lparr>requests := requests st @ [PdfStatus]\<rparr> in
      case fetch PdfStatus of
        Rejected _ \<Rightarrow> st1
      | Resolved r \<Rightarrow>
          if ok r then
            (case json r of
               Inl _ \<Rightarrow> st1
             | Inr j \<Rightarrow>
                 let st2 = st1\<lparr>pdfStatus := \<lparr>pdf_loaded = json_pdf_loaded j,
                                              chunks_count = json_chunks_count j\<rparr>\<rparr>
                 in if json_pdf_loaded j then st2\<lparr>chatMode := Rag\<rparr> else st2)
          else st1)"

definition upload_success_entry :: "js_file \<Rightarrow> message" where
  "upload_success_entry f =
     \<lparr>role = lit ''assistant'',
      content = lit ''PDF '' @ [0x22] @ file_name f @ [0x22] @
        lit '' uploaded and processed successfully! You can now ask questions about the document.''\<rparr>"

definition upload_catch_entry :: "thrown \<Rightarrow> message" where
  "upload_catch_entry error =
     \<lparr>role = lit ''assistant'',
      content = lit ''Error uploading PDF: '' @
        (case error of Error m \<Rightarrow> m | NonError \<Rightarrow> lit ''Unknown error'')\<rparr>"

text \<open>The \<open>try\<close> and \<open>catch\<close> blocks of the upload, after \<open>setIsUploading(true)\<close>.\<close>

definition upload_try_catch :: "(request \<Rightarrow> fetch_result) \<Rightarrow> js_file \<Rightarrow> js_string \<Rightarrow> state \<Rightarrow> state" where
  "upload_try_catch fetch f key st =
     (let st1 = st\<lparr>requests := requests st @ [UploadPdf f key]\<rparr>;
          catch = (\<lambda>error. st1\<lparr>messages := messages st1 @ [upload_catch_entry error]\<rparr>)
      in case fetch (UploadPdf f key) of
           Rejected e \<Rightarrow> catch e
         | Resolved r \<Rightarrow>
             if ok r then
               (case json r of
                  Inl e \<Rightarrow> catch e
                | Inr result \<Rightarrow>
                    let st2 = checkPdfStatus fetch (st1\<lparr>chatMode := Rag\<rparr>)
                    in st2\<lparr>messages := messages st2 @ [upload_success_entry f]\<rparr>)
             else
               (case json r of
                  Inl e \<Rightarrow> catch e
                | Inr error \<Rightarrow> catch (Error (js_or (detail error) (lit ''Failed to upload PDF'')))))"

definition handleFileUpload :: "(request \<Rightarrow> fetch_result) \<Rightarrow> state \<Rightarrow> state" where
  "handleFileUpload fetch st =
     (case pdfFile st of
        None \<Rightarrow> st
      | Some f \<Rightarrow>
          if \<not> isValidApiKey st then st
          else
            let st1 = upload_try_catch fetch f (apiKey st) (st\<lparr>isUploading := True\<rparr>)
            in st1\<lparr>isUploading := False,
                   pdfFile := None,
                   fileInputRef := (case fileInputRef st1 of None \<Rightarrow> None | Some _ \<Rightarrow> Some [])\<rparr>)"

section \<open>The assembler as the specification words it\<close>

text \<open>
  The specification's step, for comparison with \<open>chunk_update\<close>: the last entry is
  replaced when it exists, has role "assistant" and belongs to the current session
  (\<open>own\<close>); otherwise a new entry is appended.
\<close>

definition spec_chunk_update :: "bool \<Rightarrow> js_string \<Rightarrow> message list \<Rightarrow> message list" where
  "spec_chunk_update own acc ms =
     (if ms \<noteq> [] \<and> role (last ms) = lit ''assistant'' \<and> own
      then butlast ms @ [(last ms)\<lparr>content := acc\<rparr>]
      else ms @ [\<lparr>role = lit ''assistant'', content = acc\<rparr>])"

text \<open>
  The specification's assembler over the decoded chunks. A session owns no entry when
  it starts with \<open>own = False\<close>; after any step the last entry is the session's.
\<close>

fun spec_assemble :: "bool \<Rightarrow> js_string \<Rightarrow> js_string list \<Rightarrow> message list \<Rightarrow> message list" where
  "spec_assemble own acc [] ms = ms"
| "spec_assemble own acc (c # cs) ms =
     (let acc' = acc @ c in spec_assemble True acc' cs (spec_chunk_update own acc' ms))"

section \<open>Sample inputs\<close>

text \<open>
  A state whose guard passes (a message that is not blank, a valid key), and a response
  with a given \<open>ok\<close> flag, status, chunk sequence and ending, whose \<open>json()\<close> rejects.
\<close>

abbreviation demo_state :: state where
  "demo_state \<equiv>
     \<lparr>apiKey = lit ''sk-'' @ replicate 37 0x61, messages = [], inputMessage = lit ''Say hello'',
      isLoading = False, isValidApiKey = True, pdfFile = None,
      pdfStatus = \<lparr>pdf_loaded = False, chunks_count = 0\<rparr>, isUploading = False,
      chatMode = Regular, fileInputRef = Some [], requests = []\<rparr>"

abbreviation demo_response :: "bool \<Rightarrow> nat \<Rightarrow> bytes list \<Rightarrow> thrown option \<Rightarrow> response" where
  "demo_response k s vs e \<equiv>
     \<lparr>ok = k, status = s, json = Inl NonError, body = Some \<lparr>chunks = vs, failure = e\<rparr>\<rparr>"

text \<open>
  A state with a selected PDF, and a \<open>fetch\<close> whose every response is ok with a JSON
  body reporting a loaded PDF.
\<close>

abbreviation demo_upload_state :: state where
  "demo_upload_state \<equiv>
     demo_state\<lparr>pdfFile := Some \<lparr>file_name = lit ''a.pdf'', file_type = lit ''application/pdf''\<rparr>,
                fileInputRef := Some (lit ''a.pdf'')\<rparr>"

abbreviation demo_upload_fetch :: "request \<Rightarrow> fetch_result" where
  "demo_upload_fetch \<equiv>
     \<lambda>q. Resolved \<lparr>ok = True, status = 200, json = Inr (Json None True 3), body = None\<rparr>"

section \<open>The loop on a transcript that is not empty\<close>

lemma lit_user_neq_assistant: "lit ''user'' \<noteq> lit ''assistant''"
  by (simp add: lit_def ascii_def)

lemma chunk_update_last:
  assumes "ms \<noteq> []"
  shows "chunk_update acc ms =
     Inr (if role (last ms) = lit ''assistant''
          then butlast ms @ [(last ms)\<lparr>content := acc\<rparr>]
          else ms @ [\<lparr>role = lit ''assistant'', content = acc\<rparr>])"
proof -
  obtain xs x where ms: "ms = xs @ [x]"
    using assms by (metis append_butlast_last_id)
  show ?thesis
    by (simp add: ms chunk_update_def Let_def)
qed

lemma read_loop_open:
  "read_loop decode acc vs e (xs @ [\<lparr>role = lit ''assistant'', content = c\<rparr>]) =
     Inr (xs @ [\<lparr>role = lit ''assistant'',
                 content = (if vs = [] then c else acc @ concat (map decode vs))\<rparr>], e)"
proof (induction vs arbitrary: acc c)
  case Nil
  show ?case by simp
next
  case (Cons v vs)
  have "chunk_update (acc @ decode v) (xs @ [\<lparr>role = lit ''assistant'', content = c\<rparr>]) =
          Inr (xs @ [\<lparr>role = lit ''assistant'', content = acc @ decode v\<rparr>])"
    by (simp add: chunk_update_last)
  then show ?case
    by (simp add: Let_def Cons.IH)
qed

lemma read_loop_nonempty:
  assumes "ms \<noteq> []"
  shows "read_loop decode acc vs e ms =
     Inr (if vs = [] then ms
          else (if role (last ms) = lit ''assistant'' then butlast ms else ms) @
               [\<lparr>role = lit ''assistant'', content = acc @ concat (map decode vs)\<rparr>], e)"
proof (cases vs)
  case Nil
  then show ?thesis by simp
next
  case (Cons v vs')
  show ?thesis
  proof (cases "role (last ms) = lit ''assistant''")
    case True
    have "chunk_update (acc @ decode v) ms =
            Inr (butlast ms @ [\<lparr>role = lit ''assistant'', content = acc @ decode v\<rparr>])"
      using assms True by (simp add: chunk_update_last)
    then show ?thesis
      using True by (simp add: Cons Let_def read_loop_open)
  next
    case False
    have "chunk_update (acc @ decode v) ms =
            Inr (ms @ [\<lparr>role = lit ''assistant'', content = acc @ decode v\<rparr>])"
      using assms False by (simp add: chunk_update_last)
    then show ?thesis
      using False by (simp add: Cons Let_def read_loop_open)
  qed
qed

section \<open>What a run of \<open>handleSubmit\<close> leaves\<close>

lemma handleSubmit_guard:
  "trim (inputMessage st) = [] \<or> \<not> isValidApiKey st \<Longrightarrow> handleSubmit fetch decode st = Inr st"
  by (auto simp: handleSubmit_def)

lemma try_block_stream:
  assumes "fetch (chat_request st) = Resolved r" "ok r" "body r = Some rd"
    and "role u \<noteq> lit ''assistant''"
  shows "try_block fetch decode st (xs @ [u]) =
     Inr (xs @ [u] @ (if chunks rd = [] then []
                      else [\<lparr>role = lit ''assistant'', content = concat (map decode (chunks rd))\<rparr>]),
          failure rd)"
  using assms by (simp add: try_block_def read_loop_nonempty)

lemma try_block_early:
  assumes "case fetch (chat_request st) of
             Rejected e \<Rightarrow> err = e
           | Resolved r \<Rightarrow> (\<not> ok r \<and> err = Error (response_error r)) \<or>
                           (ok r \<and> body r = None \<and> err = Error (lit ''No reader available''))"
  shows "try_block fetch decode st ms = Inr (ms, Some err)"
  using assms by (auto simp: try_block_def split: fetch_result.splits)

lemma handleSubmit_stream:
  assumes "trim (inputMessage st) \<noteq> []" "isValidApiKey st"
    and "fetch (chat_request st) = Resolved r" "ok r" "body r = Some rd"
  shows "handleSubmit fetch decode st =
     Inr (st\<lparr>messages := messages st @ [\<lparr>role = lit ''user'', content = inputMessage st\<rparr>] @
                (if chunks rd = [] then []
                 else [\<lparr>role = lit ''assistant'', content = concat (map decode (chunks rd))\<rparr>]) @
                (case failure rd of None \<Rightarrow> [] | Some e \<Rightarrow> [catch_entry e]),
              inputMessage := [], isLoading := False,
              requests := requests st @ [chat_request st]\<rparr>)"
proof -
  have u: "role \<lparr>role = lit ''user'', content = inputMessage st\<rparr> \<noteq> lit ''assistant''"
    by (simp add: lit_user_neq_assistant)
  have "try_block fetch decode st (messages st @ [\<lparr>role = lit ''user'', content = inputMessage st\<rparr>]) =
     Inr (messages st @ [\<lparr>role = lit ''user'', content = inputMessage st\<rparr>] @
            (if chunks rd = [] then []
             else [\<lparr>role = lit ''assistant'', content = concat (map decode (chunks rd))\<rparr>]),
          failure rd)"
    using assms(3-5) u by (rule try_block_stream)
  then show ?thesis
    using assms(1,2) by (simp add: handleSubmit_def Let_def split: option.splits)
qed

lemma handleSubmit_early:
  assumes "trim (inputMessage st) \<noteq> []" "isValidApiKey st"
    and "case fetch (chat_request st) of
             Rejected e \<Rightarrow> err = e
           | Resolved r \<Rightarrow> (\<not> ok r \<and> err = Error (response_error r)) \<or>
                           (ok r \<and> body r = None \<and> err = Error (lit ''No reader available''))"
  shows "handleSubmit fetch decode st =
     Inr (st\<lparr>messages := messages st @ [\<lparr>role = lit ''user'', content = inputMessage st\<rparr>,
                                         catch_entry err],
              inputMessage := [], isLoading := False,
              requests := requests st @ [chat_request st]\<rparr>)"
proof -
  have "try_block fetch decode st (messages st @ [\<lparr>role = lit ''user'', content = inputMessage st\<rparr>]) =
     Inr (messages st @ [\<lparr>role = lit ''user'', content = inputMessage st\<rparr>], Some err)"
    using assms(3) by (rule try_block_early)
  then show ?thesis
    using assms(1,2) by (simp add: handleSubmit_def Let_def)
qed

lemma handleSubmit_messages:
  "\<exists>st' new. handleSubmit fetch decode st = Inr st' \<and> messages st' = messages st @ new \<and>
     (\<forall>m\<in>set new. role m = lit ''user'' \<or> role m = lit ''assistant'')"
proof (cases "trim (inputMessage st) = [] \<or> \<not> isValidApiKey st")
  case True
  then have "handleSubmit fetch decode st = Inr st"
    by (rule handleSubmit_guard)
  then show ?thesis by simp
next
  case False
  then have g: "trim (inputMessage st) \<noteq> []" "isValidApiKey st"
    by simp_all
  let ?u = "\<lparr>role = lit ''user'', content = inputMessage st\<rparr>"
  show ?thesis
  proof (cases "\<exists>r rd. fetch (chat_request st) = Resolved r \<and> ok r \<and> body r = Some rd")
    case True
    then obtain r rd where "fetch (chat_request st) = Resolved r" "ok r" "body r = Some rd"
      by blast
    with g have "handleSubmit fetch decode st =
       Inr (st\<lparr>messages := messages st @ [?u] @
                  (if chunks rd = [] then []
                   else [\<lparr>role = lit ''assistant'', content = concat (map decode (chunks rd))\<rparr>]) @
                  (case failure rd of None \<Rightarrow> [] | Some e \<Rightarrow> [catch_entry e]),
                inputMessage := [], isLoading := False,
                requests := requests st @ [chat_request st]\<rparr>)"
      by (rule handleSubmit_stream [where fetch = fetch])
    then show ?thesis
      by (auto simp: catch_entry_def split: option.splits)
  next
    case False
    then obtain err where "case fetch (chat_request st) of
             Rejected e \<Rightarrow> err = e
           | Resolved r \<Rightarrow> (\<not> ok r \<and> err = Error (response_error r)) \<or>
                           (ok r \<and> body r = None \<and> err = Error (lit ''No reader available''))"
      by (cases "fetch (chat_request st)") auto
    with g have "handleSubmit fetch decode st =
       Inr (st\<lparr>messages := messages st @ [?u, catch_entry err],
                inputMessage := [], isLoading := False,
                requests := requests st @ [chat_request st]\<rparr>)"
      by (rule handleSubmit_early [where fetch = fetch])
    then show ?thesis
      by (auto simp: catch_entry_def)
  qed
qed

section \<open>What a run of \<open>handleFileUpload\<close> leaves\<close>

lemma checkPdfStatus_frame:
  "messages (checkPdfStatus fetch st) = messages st \<and>
   fileInputRef (checkPdfStatus fetch st) = fileInputRef st"
  by (simp add: checkPdfStatus_def Let_def split: fetch_result.splits sum.splits)

lemma upload_try_catch_frame:
  "fileInputRef (upload_try_catch fetch f key st) = fileInputRef st \<and>
   (\<exists>m. messages (upload_try_catch fetch f key st) = messages st @ [m] \<and>
        role m = lit ''assistant'')"
  by (simp add: upload_try_catch_def Let_def checkPdfStatus_frame upload_success_entry_def
      upload_catch_entry_def split: fetch_result.splits sum.splits)

lemma handleFileUpload_messages:
  "messages (handleFileUpload fetch st) = messages st \<or>
   (\<exists>m. messages (handleFileUpload fetch st) = messages st @ [m] \<and> role m = lit ''assistant'')"
proof (cases "pdfFile st")
  case None
  then show ?thesis by (simp add: handleFileUpload_def)
next
  case (Some f)
  show ?thesis
  proof (cases "isValidApiKey st")
    case False
    then show ?thesis by (simp add: handleFileUpload_def Some)
  next
    case True
    obtain m where "messages (upload_try_catch fetch f (apiKey st) (st\<lparr>isUploading := True\<rparr>)) =
        messages (st\<lparr>isUploading := True\<rparr>) @ [m]" and "role m = lit ''assistant''"
      using upload_try_catch_frame by blast
    then show ?thesis
      using True by (simp add: handleFileUpload_def Some Let_def)
  qed
qed

section \<open>The specification's assembler on an open entry\<close>

lemma spec_assemble_open:
  "spec_assemble True acc cs (xs @ [\<lparr>role = lit ''assistant'', content = c\<rparr>]) =
     xs @ [\<lparr>role = lit ''assistant'', content = (if cs = [] then c else acc @ concat cs)\<rparr>]"
  by (induction cs arbitrary: acc c) (simp_all add: spec_chunk_update_def Let_def)

section \<open>String helpers\<close>

lemma trim_eq_Nil_iff: "trim s = [] \<longleftrightarrow> (\<forall>c\<in>set s. isWhiteSpace c)"
proof
  assume "trim s = []"
  then have "dropWhile isWhiteSpace (rev (dropWhile isWhiteSpace s)) = []"
    by (simp add: trim_def)
  then have "\<forall>c\<in>set (dropWhile isWhiteSpace s). isWhiteSpace c"
    by simp
  moreover have "dropWhile isWhiteSpace s \<noteq> [] \<Longrightarrow> \<not> isWhiteSpace (hd (dropWhile isWhiteSpace s))"
    by (rule hd_dropWhile)
  ultimately have "dropWhile isWhiteSpace s = []"
    by (metis hd_in_set)
  then show "\<forall>c\<in>set s. isWhiteSpace c"
    by simp
next
  assume "\<forall>c\<in>set s. isWhiteSpace c"
  then have d: "dropWhile isWhiteSpace s = []"
    by simp
  show "trim s = []"
    unfolding trim_def d by simp
qed

lemma startsWith_prefix: "startsWith s p \<longleftrightarrow> prefix p s"
  unfolding startsWith_def
  by (metis append_eq_conv_conj prefix_def take_is_prefix)

lemma toString_three_digits:
  assumes "100 \<le> n" and "n < 1000"
  shows "toString n =
     [0x30 + of_nat (n div 100), 0x30 + of_nat (n div 10 mod 10), 0x30 + of_nat (n mod 10)]"
proof -
  have a: "toString n = toString (n div 10) @ [0x30 + of_nat (n mod 10)]"
    using assms by (subst toString.simps) simp
  have b: "toString (n div 10) =
           toString (n div 10 div 10) @ [0x30 + of_nat (n div 10 mod 10)]"
    using assms by (subst toString.simps) simp
  have d: "n div 10 div 10 = n div 100"
    by (simp add: div_mult2_eq [symmetric])
  have "n div 100 < 10"
    using assms by linarith
  then have c: "toString (n div 100) = [0x30 + of_nat (n div 100)]"
    by (subst toString.simps) simp
  show ?thesis
    by (simp add: a b d c)
qed

section \<open>Properties of the specification\<close>

text \<open>
  C1. With the decoder of the page, the chunks "Hel", "lo, ", "world!" leave one
  assistant entry with content "Hello, world!". The content is the concatenation of
  the chunks decoded one by one, and that depends on where the stream is cut: the two
  bytes C3 A9 of U+00E9 give U+00E9 when they arrive in one chunk and U+FFFD U+FFFD
  when a chunk ends between them, so the two runs leave different transcripts.
\<close>

theorem split_code_point_changes_content:
  "(\<exists>st'. handleSubmit
            (\<lambda>q. Resolved (demo_response True 200 [ascii ''Hel'', ascii ''lo, '', ascii ''world!''] None))
            TextDecoder_decode demo_state = Inr st' \<and>
          messages st' = [\<lparr>role = lit ''user'', content = lit ''Say hello''\<rparr>,
                          \<lparr>role = lit ''assistant'', content = lit ''Hello, world!''\<rparr>]) \<and>
   (\<exists>st'. handleSubmit (\<lambda>q. Resolved (demo_response True 200 [[0xC3, 0xA9]] None))
            TextDecoder_decode demo_state = Inr st' \<and>
          messages st' = [\<lparr>role = lit ''user'', content = lit ''Say hello''\<rparr>,
                          \<lparr>role = lit ''assistant'', content = [0xE9]\<rparr>]) \<and>
   (\<exists>st'. handleSubmit (\<lambda>q. Resolved (demo_response True 200 [[0xC3], [0xA9]] None))
            TextDecoder_decode demo_state = Inr st' \<and>
          messages st' = [\<lparr>role = lit ''user'', content = lit ''Say hello''\<rparr>,
                          \<lparr>role = lit ''assistant'', content = [0xFFFD, 0xFFFD]\<rparr>]) \<and>
   handleSubmit (\<lambda>q. Resolved (demo_response True 200 [[0xC3], [0xA9]] None))
     TextDecoder_decode demo_state \<noteq>
   handleSubmit (\<lambda>q. Resolved (demo_response True 200 [[0xC3, 0xA9]] None))
     TextDecoder_decode demo_state"
proof -
  have g: "trim (inputMessage demo_state) \<noteq> []" "isValidApiKey demo_state"
    by (simp_all add: trim_def isWhiteSpace_def lit_def ascii_def)
  have run: "handleSubmit (\<lambda>q. Resolved (demo_response True 200 vs None)) TextDecoder_decode
               demo_state =
             Inr (demo_state\<lparr>messages := messages demo_state @
                    [\<lparr>role = lit ''user'', content = inputMessage demo_state\<rparr>] @
                    (if vs = [] then []
                     else [\<lparr>role = lit ''assistant'',
                            content = concat (map TextDecoder_decode vs)\<rparr>]) @ [],
                  inputMessage := [], isLoading := False,
                  requests := requests demo_state @ [chat_request demo_state]\<rparr>)" for vs
    using handleSubmit_stream [where fetch = "\<lambda>q. Resolved (demo_response True 200 vs None)"
        and decode = TextDecoder_decode and st = demo_state
        and r = "demo_response True 200 vs None"
        and rd = "\<lparr>chunks = vs, failure = None\<rparr>", OF g]
    by simp
  have h: "concat (map TextDecoder_decode [ascii ''Hel'', ascii ''lo, '', ascii ''world!'']) =
           lit ''Hello, world!''"
    by (simp add: TextDecoder_decode_def strip_bom_def utf16_units_def lit_def ascii_def)
  have w: "concat (map TextDecoder_decode [[0xC3, 0xA9]]) = [0xE9]"
    by (simp add: TextDecoder_decode_def strip_bom_def utf16_units_def)
  have s: "concat (map TextDecoder_decode [[0xC3], [0xA9]]) = [0xFFFD, 0xFFFD]"
    by (simp add: TextDecoder_decode_def strip_bom_def utf16_units_def)
  show ?thesis
    using h w s by (simp add: run)
qed

text \<open>
  C2 (as amended). On a transcript that is not empty, the updater of a chunk replaces
  the content of the last entry exactly when that entry has role "assistant", whichever
  operation wrote the entry: it is the specification's step with the session test always
  true. When the loop starts on a transcript whose last entry is not an assistant entry,
  as in \<open>handleSubmit\<close> right after the user message, the loop does what the
  specification's session-aware assembler does.
\<close>

theorem chunk_update_ignores_session:
  assumes "ms \<noteq> []"
  shows "chunk_update acc ms = Inr (spec_chunk_update True acc ms) \<and>
         (role (last ms) \<noteq> lit ''assistant'' \<longrightarrow>
            read_loop decode acc vs e ms = Inr (spec_assemble False acc (map decode vs) ms, e))"
proof (intro conjI impI)
  show "chunk_update acc ms = Inr (spec_chunk_update True acc ms)"
    using assms by (simp add: chunk_update_last spec_chunk_update_def)
next
  assume r: "role (last ms) \<noteq> lit ''assistant''"
  show "read_loop decode acc vs e ms = Inr (spec_assemble False acc (map decode vs) ms, e)"
  proof (cases vs)
    case Nil
    then show ?thesis by simp
  next
    case (Cons v vs')
    then have ne: "vs \<noteq> []"
      by simp
    have s: "spec_assemble False acc (map decode vs) ms =
          ms @ [\<lparr>role = lit ''assistant'', content = acc @ concat (map decode vs)\<rparr>]"
      by (simp add: Cons spec_chunk_update_def Let_def spec_assemble_open)
    have "read_loop decode acc vs e ms =
          Inr (ms @ [\<lparr>role = lit ''assistant'', content = acc @ concat (map decode vs)\<rparr>], e)"
      using r ne by (simp add: read_loop_nonempty [OF assms])
    then show ?thesis
      by (simp only: s)
  qed
qed

theorem chunk_update_ignores_session_witness:
  "chunk_update (lit ''Hel'')
     [\<lparr>role = lit ''user'', content = lit ''Say hello''\<rparr>,
      \<lparr>role = lit ''assistant'', content = lit ''Error: boom''\<rparr>] =
   Inr [\<lparr>role = lit ''user'', content = lit ''Say hello''\<rparr>,
        \<lparr>role = lit ''assistant'', content = lit ''Hel''\<rparr>] \<and>
   read_loop (map ucast) [] [ascii ''Hel'', ascii ''lo''] None
     [\<lparr>role = lit ''user'', content = lit ''Say hello''\<rparr>] =
   Inr ([\<lparr>role = lit ''user'', content = lit ''Say hello''\<rparr>,
         \<lparr>role = lit ''assistant'', content = lit ''Hello''\<rparr>], None)"
proof -
  let ?u = "\<lparr>role = lit ''user'', content = lit ''Say hello''\<rparr>"
  have 1: "chunk_update (lit ''Hel'') [?u, \<lparr>role = lit ''assistant'', content = lit ''Error: boom''\<rparr>] =
           Inr [?u, \<lparr>role = lit ''assistant'', content = lit ''Hel''\<rparr>]"
    using chunk_update_ignores_session [where ms = "[?u, \<lparr>role = lit ''assistant'', content = lit ''Error: boom''\<rparr>]"
        and acc = "lit ''Hel''", THEN conjunct1]
    by (simp add: spec_chunk_update_def)
  have c: "map ucast (ascii ''Hel'' :: bytes) @ map ucast (ascii ''lo'' :: bytes) = lit ''Hello''"
    by (simp add: lit_def ascii_def)
  have 2: "read_loop (map ucast) [] [ascii ''Hel'', ascii ''lo''] None [?u] =
           Inr ([?u, \<lparr>role = lit ''assistant'', content = lit ''Hello''\<rparr>], None)"
    using chunk_update_ignores_session [where ms = "[?u]" and acc = "[]" and decode = "map ucast"
        and vs = "[ascii ''Hel'', ascii ''lo'']" and e = None, THEN conjunct2] c
      lit_user_neq_assistant
    by (simp add: spec_chunk_update_def Let_def)
  from 1 2 show ?thesis by blast
qed

text \<open>
  C2 as stated fails. The Upload button stays enabled while a reply streams, so an
  upload that fails after the user message was queued and before the first chunk
  arrives leaves its "Error uploading PDF: ..." entry last in the transcript. That entry
  is no entry of the streaming session, yet the updater of the first chunk overwrites
  its content, where the specification's step appends a new entry and leaves it alone.
\<close>

theorem chunk_update_overwrites_foreign_entry:
  "messages (handleFileUpload (\<lambda>q. Rejected (Error (lit ''boom'')))
      (demo_upload_state\<lparr>messages := [\<lparr>role = lit ''user'', content = lit ''Say hello''\<rparr>],
                         inputMessage := [], isLoading := True\<rparr>)) =
     [\<lparr>role = lit ''user'', content = lit ''Say hello''\<rparr>,
      upload_catch_entry (Error (lit ''boom''))] \<and>
   chunk_update (lit ''Hel'')
     [\<lparr>role = lit ''user'', content = lit ''Say hello''\<rparr>,
      upload_catch_entry (Error (lit ''boom''))] =
     Inr [\<lparr>role = lit ''user'', content = lit ''Say hello''\<rparr>,
          \<lparr>role = lit ''assistant'', content = lit ''Hel''\<rparr>] \<and>
   spec_chunk_update False (lit ''Hel'')
     [\<lparr>role = lit ''user'', content = lit ''Say hello''\<rparr>,
      upload_catch_entry (Error (lit ''boom''))] =
     [\<lparr>role = lit ''user'', content = lit ''Say hello''\<rparr>,
      upload_catch_entry (Error (lit ''boom'')),
      \<lparr>role = lit ''assistant'', content = lit ''Hel''\<rparr>] \<and>
   chunk_update (lit ''Hel'')
     [\<lparr>role = lit ''user'', content = lit ''Say hello''\<rparr>,
      upload_catch_entry (Error (lit ''boom''))] \<noteq>
     Inr (spec_chunk_update False (lit ''Hel'')
       [\<lparr>role = lit ''user'', content = lit ''Say hello''\<rparr>,
        upload_catch_entry (Error (lit ''boom''))])"
proof -
  have "messages (handleFileUpload (\<lambda>q. Rejected (Error (lit ''boom'')))
      (demo_upload_state\<lparr>messages := [\<lparr>role = lit ''user'', content = lit ''Say hello''\<rparr>],
                         inputMessage := [], isLoading := True\<rparr>)) =
     [\<lparr>role = lit ''user'', content = lit ''Say hello''\<rparr>,
      upload_catch_entry (Error (lit ''boom''))]"
    by (simp add: handleFileUpload_def upload_try_catch_def Let_def)
  then show ?thesis
    by (simp add: chunk_update_def spec_chunk_update_def upload_catch_entry_def Let_def)
qed



text \<open>
  C4. Whatever the number of chunks and however the stream ends, a run of
  \<open>handleSubmit\<close> that reaches the loop adds, between the user message and the error entry
  of the \<open>catch\<close> clause (if any), at most one entry; with no chunk it adds none.
\<close>

theorem at_most_one_entry_per_session:
  assumes "trim (inputMessage st) \<noteq> []" and "isValidApiKey st"
    and "fetch (chat_request st) = Resolved r" and "ok r" and "body r = Some rd"
  shows "\<exists>st' new. handleSubmit fetch decode st = Inr st' \<and>
           messages st' = messages st @ [\<lparr>role = lit ''user'', content = inputMessage st\<rparr>] @
             new @ (case failure rd of None \<Rightarrow> [] | Some e \<Rightarrow> [catch_entry e]) \<and>
           length new \<le> 1 \<and> (chunks rd = [] \<longrightarrow> new = [])"
proof -
  let ?new = "if chunks rd = [] then []
              else [\<lparr>role = lit ''assistant'', content = concat (map decode (chunks rd))\<rparr>]"
  let ?ms = "messages st @ [\<lparr>role = lit ''user'', content = inputMessage st\<rparr>] @
             ?new @ (case failure rd of None \<Rightarrow> [] | Some e \<Rightarrow> [catch_entry e])"
  let ?st' = "st\<lparr>messages := ?ms, inputMessage := [], isLoading := False,
                requests := requests st @ [chat_request st]\<rparr>"
  have run: "handleSubmit fetch decode st = Inr ?st'"
    using assms by (rule handleSubmit_stream [where fetch = fetch])
  have ms: "messages ?st' = ?ms"
    by simp
  have new: "length ?new \<le> 1 \<and> (chunks rd = [] \<longrightarrow> ?new = [])"
    by simp
  from run ms new show ?thesis
    by blast
qed


theorem at_most_one_entry_per_session_witness:
  "\<exists>st'. handleSubmit
           (\<lambda>q. Resolved (demo_response True 200 [] (Some (Error (lit ''network error'')))))
           (map ucast) demo_state = Inr st' \<and>
         messages st' = [\<lparr>role = lit ''user'', content = lit ''Say hello''\<rparr>,
                         \<lparr>role = lit ''assistant'', content = lit ''Error: network error''\<rparr>]"
proof -
  have g: "trim (inputMessage demo_state) \<noteq> []"
    by (simp add: trim_def isWhiteSpace_def lit_def ascii_def)
  have m: "catch_entry (Error (lit ''network error'')) =
           \<lparr>role = lit ''assistant'', content = lit ''Error: network error''\<rparr>"
    by (simp add: catch_entry_def lit_def ascii_def)
  show ?thesis
    using at_most_one_entry_per_session [where st = demo_state
        and fetch = "\<lambda>q. Resolved (demo_response True 200 [] (Some (Error (lit ''network error''))))"
        and decode = "map ucast"
        and r = "demo_response True 200 [] (Some (Error (lit ''network error'')))"
        and rd = "\<lparr>chunks = [], failure = Some (Error (lit ''network error''))\<rparr>"] g m
    by auto
qed

text \<open>
  C5. When the guard passes and \<open>fetch\<close> rejects, or resolves to a response that is not
  ok, \<open>handleSubmit\<close> makes that one \<open>fetch\<close> call and adds exactly the user message and
  one assistant entry "Error: " followed by the text of the failure: for a rejection,
  the message of the Error (or "Failed to process your request"); for a response that
  is not ok, the \<open>detail\<close> of its JSON when there is one that is not empty, and otherwise
  "Server responded with status: " followed by the status in decimal (three digits for
  a status from 100 to 999).
\<close>

theorem rejected_call_adds_user_and_error:
  assumes "trim (inputMessage st) \<noteq> []" and "isValidApiKey st"
  shows "(\<forall>e. fetch (chat_request st) = Rejected e \<longrightarrow>
            (\<exists>st'. handleSubmit fetch decode st = Inr st' \<and>
               messages st' = messages st @
                 [\<lparr>role = lit ''user'', content = inputMessage st\<rparr>,
                  \<lparr>role = lit ''assistant'',
                   content = lit ''Error: '' @
                     (case e of Error m \<Rightarrow> m
                      | NonError \<Rightarrow> lit ''Failed to process your request'')\<rparr>] \<and>
               requests st' = requests st @ [chat_request st])) \<and>
         (\<forall>r. fetch (chat_request st) = Resolved r \<and> \<not> ok r \<longrightarrow>
            (\<exists>st'. handleSubmit fetch decode st = Inr st' \<and>
               messages st' = messages st @
                 [\<lparr>role = lit ''user'', content = inputMessage st\<rparr>,
                  \<lparr>role = lit ''assistant'',
                   content = lit ''Error: '' @
                     (case json r of
                        Inl _ \<Rightarrow> lit ''Server responded with status: '' @ toString (status r)
                      | Inr j \<Rightarrow>
                          (case detail j of
                             None \<Rightarrow> lit ''Server responded with status: '' @ toString (status r)
                           | Some d \<Rightarrow>
                               if d = []
                               then lit ''Server responded with status: '' @ toString (status r)
                               else d))\<rparr>] \<and>
               requests st' = requests st @ [chat_request st]) \<and>
            (100 \<le> status r \<and> status r < 1000 \<longrightarrow>
               toString (status r) =
                 [0x30 + of_nat (status r div 100), 0x30 + of_nat (status r div 10 mod 10),
                  0x30 + of_nat (status r mod 10)]))"
proof (intro conjI allI impI)
  fix e
  assume "fetch (chat_request st) = Rejected e"
  then have "case fetch (chat_request st) of
          Rejected e' \<Rightarrow> e = e'
        | Resolved r \<Rightarrow> (\<not> ok r \<and> e = Error (response_error r)) \<or>
                        (ok r \<and> body r = None \<and> e = Error (lit ''No reader available''))"
    by simp
  with assms have "handleSubmit fetch decode st =
     Inr (st\<lparr>messages := messages st @ [\<lparr>role = lit ''user'', content = inputMessage st\<rparr>,
                                         catch_entry e],
              inputMessage := [], isLoading := False,
              requests := requests st @ [chat_request st]\<rparr>)"
    by (rule handleSubmit_early [where fetch = fetch])
  then show "\<exists>st'. handleSubmit fetch decode st = Inr st' \<and>
               messages st' = messages st @
                 [\<lparr>role = lit ''user'', content = inputMessage st\<rparr>,
                  \<lparr>role = lit ''assistant'',
                   content = lit ''Error: '' @
                     (case e of Error m \<Rightarrow> m
                      | NonError \<Rightarrow> lit ''Failed to process your request'')\<rparr>] \<and>
               requests st' = requests st @ [chat_request st]"
    by (simp add: catch_entry_def)
next
  fix r
  assume h: "fetch (chat_request st) = Resolved r \<and> \<not> ok r"
  then have "case fetch (chat_request st) of
          Rejected e' \<Rightarrow> Error (response_error r) = e'
        | Resolved r' \<Rightarrow> (\<not> ok r' \<and> Error (response_error r) = Error (response_error r')) \<or>
                        (ok r' \<and> body r' = None \<and>
                         Error (response_error r) = Error (lit ''No reader available''))"
    by simp
  with assms have "handleSubmit fetch decode st =
     Inr (st\<lparr>messages := messages st @ [\<lparr>role = lit ''user'', content = inputMessage st\<rparr>,
                                         catch_entry (Error (response_error r))],
              inputMessage := [], isLoading := False,
              requests := requests st @ [chat_request st]\<rparr>)"
    by (rule handleSubmit_early [where fetch = fetch])
  then show "\<exists>st'. handleSubmit fetch decode st = Inr st' \<and>
               messages st' = messages st @
                 [\<lparr>role = lit ''user'', content = inputMessage st\<rparr>,
                  \<lparr>role = lit ''assistant'',
                   content = lit ''Error: '' @
                     (case json r of
                        Inl _ \<Rightarrow> lit ''Server responded with status: '' @ toString (status r)
                      | Inr j \<Rightarrow>
                          (case detail j of
                             None \<Rightarrow> lit ''Server responded with status: '' @ toString (status r)
                           | Some d \<Rightarrow>
                               if d = []
                               then lit ''Server responded with status: '' @ toString (status r)
                               else d))\<rparr>] \<and>
               requests st' = requests st @ [chat_request st]"
    by (simp add: catch_entry_def response_error_def js_or_def split: sum.splits option.splits)
next
  fix r :: response
  assume "100 \<le> status r \<and> status r < 1000"
  then show "toString (status r) =
                 [0x30 + of_nat (status r div 100), 0x30 + of_nat (status r div 10 mod 10),
                  0x30 + of_nat (status r mod 10)]"
    by (simp add: toString_three_digits)
qed

theorem rejected_call_adds_user_and_error_witness:
  "(\<exists>st'. handleSubmit
           (\<lambda>q. Resolved \<lparr>ok = False, status = 401, json = Inl NonError, body = None\<rparr>)
           (map ucast) demo_state = Inr st' \<and>
         messages st' =
           [\<lparr>role = lit ''user'', content = lit ''Say hello''\<rparr>,
            \<lparr>role = lit ''assistant'',
             content = lit ''Error: Server responded with status: 401''\<rparr>] \<and>
         requests st' = [Chat (lit ''You are a helpful AI assistant.'') (lit ''Say hello'')
                           (lit ''sk-'' @ replicate 37 0x61)]) \<and>
   (\<exists>st'. handleSubmit
           (\<lambda>q. Resolved \<lparr>ok = False, status = 500,
                           json = Inr (Json (Some (lit ''Invalid API key'')) False 0),
                           body = None\<rparr>)
           (map ucast) demo_state = Inr st' \<and>
         messages st' =
           [\<lparr>role = lit ''user'', content = lit ''Say hello''\<rparr>,
            \<lparr>role = lit ''assistant'', content = lit ''Error: Invalid API key''\<rparr>]) \<and>
   (\<exists>st'. handleSubmit
           (\<lambda>q. Resolved \<lparr>ok = False, status = 503, json = Inr (Json (Some []) False 0),
                           body = None\<rparr>)
           (map ucast) demo_state = Inr st' \<and>
         messages st' =
           [\<lparr>role = lit ''user'', content = lit ''Say hello''\<rparr>,
            \<lparr>role = lit ''assistant'',
             content = lit ''Error: Server responded with status: 503''\<rparr>]) \<and>
   (\<exists>st'. handleSubmit (\<lambda>q. Rejected (Error (lit ''Failed to fetch''))) (map ucast) demo_state =
           Inr st' \<and>
         messages st' =
           [\<lparr>role = lit ''user'', content = lit ''Say hello''\<rparr>,
            \<lparr>role = lit ''assistant'', content = lit ''Error: Failed to fetch''\<rparr>])"
proof -
  have g: "trim (inputMessage demo_state) \<noteq> []" "isValidApiKey demo_state"
    by (simp_all add: trim_def isWhiteSpace_def lit_def ascii_def)
  note t = rejected_call_adds_user_and_error [OF g, where decode = "map ucast"]
  let ?r1 = "\<lparr>ok = False, status = 401, json = Inl NonError, body = None\<rparr>"
  let ?r2 = "\<lparr>ok = False, status = 500,
              json = Inr (Json (Some (lit ''Invalid API key'')) False 0), body = None\<rparr>"
  let ?r3 = "\<lparr>ok = False, status = 503, json = Inr (Json (Some []) False 0), body = None\<rparr>"
  have m1: "lit ''Error: '' @ lit ''Server responded with status: '' @ [0x34, 0x30, 0x31] =
            lit ''Error: Server responded with status: 401''"
    by (simp add: lit_def ascii_def)
  have m2: "lit ''Error: '' @ lit ''Invalid API key'' = lit ''Error: Invalid API key''"
    by (simp add: lit_def ascii_def)
  have m3: "lit ''Error: '' @ lit ''Server responded with status: '' @ [0x35, 0x30, 0x33] =
            lit ''Error: Server responded with status: 503''"
    by (simp add: lit_def ascii_def)
  have m4: "lit ''Error: '' @ lit ''Failed to fetch'' = lit ''Error: Failed to fetch''"
    by (simp add: lit_def ascii_def)
  have n: "lit ''Invalid API key'' \<noteq> []"
    by (simp add: lit_def ascii_def)
  have 1: "\<exists>st'. handleSubmit (\<lambda>q. Resolved ?r1) (map ucast) demo_state = Inr st' \<and>
         messages st' =
           [\<lparr>role = lit ''user'', content = lit ''Say hello''\<rparr>,
            \<lparr>role = lit ''assistant'',
             content = lit ''Error: Server responded with status: 401''\<rparr>] \<and>
         requests st' = [Chat (lit ''You are a helpful AI assistant.'') (lit ''Say hello'')
                           (lit ''sk-'' @ replicate 37 0x61)]"
    using t [where fetch = "\<lambda>q. Resolved ?r1", THEN conjunct2, rule_format, of ?r1] m1
    by (auto simp: chat_request_def)
  have 2: "\<exists>st'. handleSubmit (\<lambda>q. Resolved ?r2) (map ucast) demo_state = Inr st' \<and>
         messages st' =
           [\<lparr>role = lit ''user'', content = lit ''Say hello''\<rparr>,
            \<lparr>role = lit ''assistant'', content = lit ''Error: Invalid API key''\<rparr>]"
    using t [where fetch = "\<lambda>q. Resolved ?r2", THEN conjunct2, rule_format, of ?r2] m2 n
    by auto
  have 3: "\<exists>st'. handleSubmit (\<lambda>q. Resolved ?r3) (map ucast) demo_state = Inr st' \<and>
         messages st' =
           [\<lparr>role = lit ''user'', content = lit ''Say hello''\<rparr>,
            \<lparr>role = lit ''assistant'',
             content = lit ''Error: Server responded with status: 503''\<rparr>]"
    using t [where fetch = "\<lambda>q. Resolved ?r3", THEN conjunct2, rule_format, of ?r3] m3
    by auto
  have 4: "\<exists>st'. handleSubmit (\<lambda>q. Rejected (Error (lit ''Failed to fetch''))) (map ucast)
             demo_state = Inr st' \<and>
         messages st' =
           [\<lparr>role = lit ''user'', content = lit ''Say hello''\<rparr>,
            \<lparr>role = lit ''assistant'', content = lit ''Error: Failed to fetch''\<rparr>]"
    using t [where fetch = "\<lambda>q. Rejected (Error (lit ''Failed to fetch''))", THEN conjunct1,
        rule_format, of "Error (lit ''Failed to fetch'')"] m4
    by auto
  from 1 2 3 4 show ?thesis by blast
qed

text \<open>
  C6. When \<open>inputMessage\<close> is empty or holds only white space, \<open>handleSubmit\<close> returns the
  state as it was: no entry added or changed, no \<open>fetch\<close> call recorded.
\<close>

theorem blank_message_is_noop:
  assumes "\<forall>c\<in>set (inputMessage st). isWhiteSpace c"
  shows "handleSubmit fetch decode st = Inr st"
  using assms by (simp add: handleSubmit_guard trim_eq_Nil_iff)

theorem blank_message_is_noop_witness:
  "handleSubmit (\<lambda>q. Resolved (demo_response True 200 [ascii ''Hi''] None)) (map ucast)
     (demo_state\<lparr>inputMessage := [0x20, 0x09, 0x0A, 0xA0, 0x3000]\<rparr>) =
   Inr (demo_state\<lparr>inputMessage := [0x20, 0x09, 0x0A, 0xA0, 0x3000]\<rparr>) \<and>
   handleSubmit (\<lambda>q. Resolved (demo_response True 200 [ascii ''Hi''] None)) (map ucast)
     (demo_state\<lparr>inputMessage := []\<rparr>) = Inr (demo_state\<lparr>inputMessage := []\<rparr>)"
proof -
  have w: "\<forall>c\<in>set (inputMessage (demo_state\<lparr>inputMessage := [0x20, 0x09, 0x0A, 0xA0, 0x3000]\<rparr>)).
      isWhiteSpace c"
    by (simp add: isWhiteSpace_def)
  have e: "\<forall>c\<in>set (inputMessage (demo_state\<lparr>inputMessage := []\<rparr>)). isWhiteSpace c"
    by simp
  show ?thesis
    using blank_message_is_noop [OF w] blank_message_is_noop [OF e]
    by blast
qed

text \<open>
  C7. A key shorter than 40 code units, or starting with neither "sk-" nor "sk-proj-",
  fails \<open>validateApiKey\<close>, and once it is typed in (\<open>handleApiKeyChange\<close>) a submission
  returns the state as it was, with no \<open>fetch\<close> call. A key with one of the prefixes and
  at least 40 code units passes the check.
\<close>

theorem malformed_key_rejected_before_fetch:
  "(length key < 40 \<or> \<not> (prefix (lit ''sk-'') key \<or> prefix (lit ''sk-proj-'') key) \<longrightarrow>
      \<not> validateApiKey key \<and>
      handleSubmit fetch decode (handleApiKeyChange key st) = Inr (handleApiKeyChange key st)) \<and>
   ((prefix (lit ''sk-'') key \<or> prefix (lit ''sk-proj-'') key) \<and> 40 \<le> length key \<longrightarrow>
      validateApiKey key \<and> isValidApiKey (handleApiKeyChange key st))"
proof -
  have v: "validateApiKey key \<longleftrightarrow>
      (prefix (lit ''sk-'') key \<or> prefix (lit ''sk-proj-'') key) \<and> 40 \<le> length key"
    by (simp add: validateApiKey_def startsWith_prefix)
  have "\<not> validateApiKey key \<Longrightarrow>
      handleSubmit fetch decode (handleApiKeyChange key st) = Inr (handleApiKeyChange key st)"
    by (rule handleSubmit_guard) (simp add: handleApiKeyChange_def)
  moreover have "validateApiKey key \<Longrightarrow> isValidApiKey (handleApiKeyChange key st)"
    by (simp add: handleApiKeyChange_def)
  ultimately show ?thesis
    using v by auto
qed

theorem malformed_key_rejected_before_fetch_witness:
  "\<not> validateApiKey (lit ''sk-tooshort'') \<and>
   handleSubmit (\<lambda>q. Resolved (demo_response True 200 [ascii ''Hi''] None)) (map ucast)
     (handleApiKeyChange (lit ''sk-tooshort'') demo_state) =
     Inr (handleApiKeyChange (lit ''sk-tooshort'') demo_state) \<and>
   \<not> validateApiKey (lit ''pk-'' @ replicate 40 0x61) \<and>
   validateApiKey (lit ''sk-proj-'' @ replicate 40 0x61) \<and>
   isValidApiKey (handleApiKeyChange (lit ''sk-proj-'' @ replicate 40 0x61) demo_state)"
proof -
  have a: "length (lit ''sk-tooshort'') < 40"
    by (simp add: lit_def ascii_def)
  have b: "\<not> (prefix (lit ''sk-'') (lit ''pk-'' @ replicate 40 0x61) \<or>
              prefix (lit ''sk-proj-'') (lit ''pk-'' @ replicate 40 0x61))"
    by (simp add: lit_def ascii_def)
  have c: "(prefix (lit ''sk-'') (lit ''sk-proj-'' @ replicate 40 0x61) \<or>
            prefix (lit ''sk-proj-'') (lit ''sk-proj-'' @ replicate 40 0x61)) \<and>
           40 \<le> length (lit ''sk-proj-'' @ replicate 40 (0x61 :: code_unit))"
    by (simp add: lit_def ascii_def)
  show ?thesis
    using a b c
      malformed_key_rejected_before_fetch [of "lit ''sk-tooshort''"
        "\<lambda>q. Resolved (demo_response True 200 [ascii ''Hi''] None)" "map ucast" demo_state]
      malformed_key_rejected_before_fetch [of "lit ''pk-'' @ replicate 40 0x61"
        "\<lambda>q. Resolved (demo_response True 200 [ascii ''Hi''] None)" "map ucast" demo_state]
      malformed_key_rejected_before_fetch [of "lit ''sk-proj-'' @ replicate 40 0x61"
        "\<lambda>q. Resolved (demo_response True 200 [ascii ''Hi''] None)" "map ucast" demo_state]
    by blast
qed

text \<open>
  C8. On a transcript that is not empty, the updater of a chunk either appends exactly
  one assistant entry or changes only the content of the last entry (its role stays);
  every earlier entry is unchanged. The first step of the loop is this updater at the
  first decoded chunk. After \<open>k \<ge> 1\<close> steps the last entry is an assistant entry whose
  content is the text accumulated so far; step \<open>k + 1\<close> is the updater applied to that
  transcript, it keeps the length and all entries but the last, and the last entry's
  new content is the previous content followed by the decoded chunk.
\<close>

theorem chunk_step_frame_and_growth:
  assumes "ms \<noteq> []"
  shows "(\<exists>ms'. chunk_update acc ms = Inr ms' \<and>
            (ms' = ms @ [\<lparr>role = lit ''assistant'', content = acc\<rparr>] \<or>
             length ms' = length ms \<and> role (last ms') = role (last ms) \<and>
             content (last ms') = acc) \<and>
            take (length ms - 1) ms' = butlast ms) \<and>
         (\<forall>v e. \<exists>m. chunk_update (acc @ decode v) ms = Inr m \<and>
            read_loop decode acc [v] e ms = Inr (m, e)) \<and>
         (\<forall>vs v e. vs \<noteq> [] \<longrightarrow>
            (\<exists>m1 m2. read_loop decode acc vs e ms = Inr (m1, e) \<and>
               read_loop decode acc (vs @ [v]) e ms = Inr (m2, e) \<and>
               chunk_update (acc @ concat (map decode vs) @ decode v) m1 = Inr m2 \<and>
               role (last m1) = lit ''assistant'' \<and>
               content (last m1) = acc @ concat (map decode vs) \<and>
               role (last m2) = lit ''assistant'' \<and>
               content (last m2) = content (last m1) @ decode v \<and>
               length m2 = length m1 \<and> butlast m2 = butlast m1 \<and>
               prefix (content (last m1)) (content (last m2))))"
proof (intro conjI allI impI)
  show "\<exists>ms'. chunk_update acc ms = Inr ms' \<and>
            (ms' = ms @ [\<lparr>role = lit ''assistant'', content = acc\<rparr>] \<or>
             length ms' = length ms \<and> role (last ms') = role (last ms) \<and>
             content (last ms') = acc) \<and>
            take (length ms - 1) ms' = butlast ms"
    using assms by (simp add: chunk_update_last butlast_conv_take)
next
  fix v e
  show "\<exists>m. chunk_update (acc @ decode v) ms = Inr m \<and>
            read_loop decode acc [v] e ms = Inr (m, e)"
    using assms by (simp add: chunk_update_last Let_def)
next
  fix vs :: "bytes list" and v e
  assume "vs \<noteq> []"
  let ?base = "if role (last ms) = lit ''assistant'' then butlast ms else ms"
  let ?m1 = "?base @ [\<lparr>role = lit ''assistant'', content = acc @ concat (map decode vs)\<rparr>]"
  let ?m2 = "?base @ [\<lparr>role = lit ''assistant'',
                       content = acc @ concat (map decode vs) @ decode v\<rparr>]"
  have 1: "read_loop decode acc vs e ms = Inr (?m1, e)"
    using assms \<open>vs \<noteq> []\<close> by (simp add: read_loop_nonempty)
  have 2: "read_loop decode acc (vs @ [v]) e ms = Inr (?m2, e)"
    using assms by (simp add: read_loop_nonempty)
  have 3: "chunk_update (acc @ concat (map decode vs) @ decode v) ?m1 = Inr ?m2"
    by (simp add: chunk_update_last)
  have 4: "role (last ?m1) = lit ''assistant'' \<and>
           content (last ?m1) = acc @ concat (map decode vs) \<and>
           role (last ?m2) = lit ''assistant'' \<and>
           content (last ?m2) = content (last ?m1) @ decode v \<and>
           length ?m2 = length ?m1 \<and> butlast ?m2 = butlast ?m1 \<and>
           prefix (content (last ?m1)) (content (last ?m2))"
    by simp
  from 1 2 3 4 show "\<exists>m1 m2. read_loop decode acc vs e ms = Inr (m1, e) \<and>
               read_loop decode acc (vs @ [v]) e ms = Inr (m2, e) \<and>
               chunk_update (acc @ concat (map decode vs) @ decode v) m1 = Inr m2 \<and>
               role (last m1) = lit ''assistant'' \<and>
               content (last m1) = acc @ concat (map decode vs) \<and>
               role (last m2) = lit ''assistant'' \<and>
               content (last m2) = content (last m1) @ decode v \<and>
               length m2 = length m1 \<and> butlast m2 = butlast m1 \<and>
               prefix (content (last m1)) (content (last m2))"
    by blast
qed

theorem chunk_step_frame_and_growth_witness:
  "(\<exists>ms'. chunk_update (lit ''Hel'') [\<lparr>role = lit ''user'', content = lit ''Say hello''\<rparr>] = Inr ms' \<and>
      ms' = [\<lparr>role = lit ''user'', content = lit ''Say hello''\<rparr>,
             \<lparr>role = lit ''assistant'', content = lit ''Hel''\<rparr>]) \<and>
   (\<exists>m1 m2. read_loop (map ucast) [] [ascii ''Hel''] None
               [\<lparr>role = lit ''user'', content = lit ''Say hello''\<rparr>] = Inr (m1, None) \<and>
      read_loop (map ucast) [] ([ascii ''Hel''] @ [ascii ''lo'']) None
               [\<lparr>role = lit ''user'', content = lit ''Say hello''\<rparr>] = Inr (m2, None) \<and>
      role (last m1) = lit ''assistant'' \<and> content (last m1) = lit ''Hel'' \<and>
      role (last m2) = lit ''assistant'' \<and> content (last m2) = lit ''Hello'' \<and>
      length m2 = length m1 \<and> butlast m2 = butlast m1 \<and>
      prefix (content (last m1)) (content (last m2)))"
proof -
  let ?ms = "[\<lparr>role = lit ''user'', content = lit ''Say hello''\<rparr>]"
  have ne: "?ms \<noteq> []" by simp
  note t = chunk_step_frame_and_growth [OF ne]
  have 1: "\<exists>ms'. chunk_update (lit ''Hel'') ?ms = Inr ms' \<and>
      ms' = [\<lparr>role = lit ''user'', content = lit ''Say hello''\<rparr>,
             \<lparr>role = lit ''assistant'', content = lit ''Hel''\<rparr>]"
    using t [where acc = "lit ''Hel''", THEN conjunct1] lit_user_neq_assistant
    by (auto simp: chunk_update_def)
  have a: "map ucast (ascii ''Hel'' :: bytes) = lit ''Hel''"
    by (simp add: lit_def ascii_def)
  have b: "lit ''Hel'' @ map ucast (ascii ''lo'' :: bytes) = lit ''Hello''"
    by (simp add: lit_def ascii_def)
  have v: "[ascii ''Hel''] \<noteq> ([] :: bytes list)"
    by simp
  obtain m1 m2 where
    r1: "read_loop (map ucast) [] [ascii ''Hel''] None ?ms = Inr (m1, None)" and
    r2: "read_loop (map ucast) [] ([ascii ''Hel''] @ [ascii ''lo'']) None ?ms = Inr (m2, None)" and
    a1: "role (last m1) = lit ''assistant''" and
    c1: "content (last m1) = [] @ concat (map (map ucast) [ascii ''Hel'' :: bytes])" and
    a2: "role (last m2) = lit ''assistant''" and
    c2: "content (last m2) = content (last m1) @ map ucast (ascii ''lo'' :: bytes)" and
    l: "length m2 = length m1" and bl: "butlast m2 = butlast m1" and
    p: "prefix (content (last m1)) (content (last m2))"
    using t [where acc = "[]" and decode = "map ucast", THEN conjunct2, THEN conjunct2,
        rule_format, where vs = "[ascii ''Hel'']" and v = "ascii ''lo''" and e = None, OF v]
    by blast
  have c1': "content (last m1) = lit ''Hel''"
    using c1 a by simp
  have c2': "content (last m2) = lit ''Hello''"
    using c2 c1' b by simp
  have 2: "\<exists>m1 m2. read_loop (map ucast) [] [ascii ''Hel''] None ?ms = Inr (m1, None) \<and>
      read_loop (map ucast) [] ([ascii ''Hel''] @ [ascii ''lo'']) None ?ms = Inr (m2, None) \<and>
      role (last m1) = lit ''assistant'' \<and> content (last m1) = lit ''Hel'' \<and>
      role (last m2) = lit ''assistant'' \<and> content (last m2) = lit ''Hello'' \<and>
      length m2 = length m1 \<and> butlast m2 = butlast m1 \<and>
      prefix (content (last m1)) (content (last m2))"
    using r1 r2 a1 c1' a2 c2' l bl p by blast
  from 1 2 show ?thesis by blast
qed

text \<open>
  C9. If every entry of the transcript has role "user" or "assistant", the same holds
  after \<open>handleSubmit\<close> (which always returns), after the updater of a chunk, after
  \<open>handleFileUpload\<close> and after \<open>clearChat\<close>.
\<close>

theorem roles_stay_user_or_assistant:
  assumes "\<forall>m\<in>set (messages st). role m = lit ''user'' \<or> role m = lit ''assistant''"
  shows "(\<exists>st'. handleSubmit fetch decode st = Inr st' \<and>
            (\<forall>m\<in>set (messages st'). role m = lit ''user'' \<or> role m = lit ''assistant'')) \<and>
         (\<forall>acc ms'. chunk_update acc (messages st) = Inr ms' \<longrightarrow>
            (\<forall>m\<in>set ms'. role m = lit ''user'' \<or> role m = lit ''assistant'')) \<and>
         (\<forall>m\<in>set (messages (handleFileUpload fetch st)).
            role m = lit ''user'' \<or> role m = lit ''assistant'') \<and>
         (\<forall>m\<in>set (messages (clearChat st)). role m = lit ''user'' \<or> role m = lit ''assistant'')"
proof (intro conjI allI impI)
  show "\<exists>st'. handleSubmit fetch decode st = Inr st' \<and>
            (\<forall>m\<in>set (messages st'). role m = lit ''user'' \<or> role m = lit ''assistant'')"
    using handleSubmit_messages [of fetch decode st] assms by auto
next
  fix acc ms'
  assume c: "chunk_update acc (messages st) = Inr ms'"
  then have ne: "messages st \<noteq> []"
    by (auto simp: chunk_update_def)
  have "\<forall>m\<in>set (butlast (messages st)). role m = lit ''user'' \<or> role m = lit ''assistant''"
    using assms by (meson in_set_butlastD)
  then show "\<forall>m\<in>set ms'. role m = lit ''user'' \<or> role m = lit ''assistant''"
    using c assms by (auto simp: chunk_update_last [OF ne] split: if_splits)
next
  show "\<forall>m\<in>set (messages (handleFileUpload fetch st)).
            role m = lit ''user'' \<or> role m = lit ''assistant''"
    using handleFileUpload_messages [of fetch st] assms by auto
next
  show "\<forall>m\<in>set (messages (clearChat st)). role m = lit ''user'' \<or> role m = lit ''assistant''"
    by (simp add: clearChat_def)
qed


theorem roles_stay_user_or_assistant_witness:
  "(\<exists>st'. handleSubmit (\<lambda>q. Resolved (demo_response True 200 [ascii ''Hi''] None)) (map ucast)
            (demo_upload_state\<lparr>messages := [\<lparr>role = lit ''user'', content = lit ''a''\<rparr>,
                                             \<lparr>role = lit ''assistant'', content = lit ''b''\<rparr>]\<rparr>) = Inr st' \<and>
          set (map role (messages st')) \<subseteq> {lit ''user'', lit ''assistant''}) \<and>
   set (map role (messages (handleFileUpload demo_upload_fetch
            (demo_upload_state\<lparr>messages := [\<lparr>role = lit ''user'', content = lit ''a''\<rparr>,
                                             \<lparr>role = lit ''assistant'', content = lit ''b''\<rparr>]\<rparr>))))
     \<subseteq> {lit ''user'', lit ''assistant''}"
proof -
  let ?S = "demo_upload_state\<lparr>messages := [\<lparr>role = lit ''user'', content = lit ''a''\<rparr>,
                                             \<lparr>role = lit ''assistant'', content = lit ''b''\<rparr>]\<rparr>"
  have h: "\<forall>m\<in>set (messages ?S). role m = lit ''user'' \<or> role m = lit ''assistant''"
    by simp
  note t = roles_stay_user_or_assistant [OF h,
      where fetch = "\<lambda>q. Resolved (demo_response True 200 [ascii ''Hi''] None)"
      and decode = "map ucast"]
  note u = roles_stay_user_or_assistant [OF h, where fetch = demo_upload_fetch
      and decode = "map ucast"]
  from t have 1: "\<exists>st'. handleSubmit (\<lambda>q. Resolved (demo_response True 200 [ascii ''Hi''] None))
            (map ucast) ?S = Inr st' \<and> set (map role (messages st')) \<subseteq> {lit ''user'', lit ''assistant''}"
    by (elim conjE exE) (rule exI, auto)
  from u have 2: "set (map role (messages (handleFileUpload demo_upload_fetch ?S)))
     \<subseteq> {lit ''user'', lit ''assistant''}"
    by (elim conjE) auto
  from 1 2 show ?thesis by blast
qed

text \<open>
  C10. When no file is selected or the key is not valid, \<open>handleFileUpload\<close> returns the
  state as it was (no \<open>fetch\<close> call recorded). Otherwise, whatever \<open>fetch\<close> answers,
  \<open>isUploading\<close> is false and \<open>pdfFile\<close> is null at the end, and the file input behind
  \<open>fileInputRef\<close>, when there is one, has the empty value.
\<close>

theorem upload_always_resets:
  "(pdfFile st = None \<or> \<not> isValidApiKey st \<longrightarrow> handleFileUpload fetch st = st) \<and>
   (pdfFile st \<noteq> None \<and> isValidApiKey st \<longrightarrow>
      \<not> isUploading (handleFileUpload fetch st) \<and>
      pdfFile (handleFileUpload fetch st) = None \<and>
      fileInputRef (handleFileUpload fetch st) =
        (case fileInputRef st of None \<Rightarrow> None | Some _ \<Rightarrow> Some []))"
proof (intro conjI impI)
  assume "pdfFile st = None \<or> \<not> isValidApiKey st"
  then show "handleFileUpload fetch st = st"
    by (auto simp: handleFileUpload_def split: option.splits)
next
  assume a: "pdfFile st \<noteq> None \<and> isValidApiKey st"
  then obtain f where f: "pdfFile st = Some f" and v: "isValidApiKey st"
    by auto
  have r: "fileInputRef (upload_try_catch fetch f (apiKey st) (st\<lparr>isUploading := True\<rparr>)) =
           fileInputRef st"
    by (simp add: upload_try_catch_frame)
  show "\<not> isUploading (handleFileUpload fetch st)"
    using v by (simp add: handleFileUpload_def f Let_def)
  show "pdfFile (handleFileUpload fetch st) = None"
    using v by (simp add: handleFileUpload_def f Let_def)
  show "fileInputRef (handleFileUpload fetch st) =
        (case fileInputRef st of None \<Rightarrow> None | Some _ \<Rightarrow> Some [])"
    using v by (simp add: handleFileUpload_def f Let_def r)
qed

theorem upload_always_resets_witness:
  "handleFileUpload demo_upload_fetch demo_state = demo_state \<and>
   \<not> isUploading (handleFileUpload demo_upload_fetch demo_upload_state) \<and>
   pdfFile (handleFileUpload demo_upload_fetch demo_upload_state) = None \<and>
   fileInputRef (handleFileUpload demo_upload_fetch demo_upload_state) = Some []"
  using upload_always_resets [of demo_state demo_upload_fetch]
    upload_always_resets [of demo_upload_state demo_upload_fetch]
  by simp

end
